theory Spec2Isabelle
  imports
    Complex_Main
    "HOL-Library.Char_ord"
    "HOL-Library.List_Lexorder"
    "HOL-Library.Option_ord"
begin

section \<open>Values, parameter dictionaries and statement text\<close>

text \<open>
  The program is \<^verbatim>\<open>streamlit_app.py\<close>: a dashboard that builds SQL text and a
  dictionary of bound parameters from the user's selections, hands both to the
  store and renders the table that comes back. Statement text is a \<open>string\<close>;
  a bound value is an integer or a text (Python \<open>int\<close> and \<open>str\<close>), or \<open>None\<close>.
\<close>

datatype sqlval = SNull | SInt int | SText string

type_synonym params = "(string \<times> sqlval) list"

text \<open>
  \<^verbatim>\<open>params[k] = v\<close> on a Python dict: an existing key keeps its place and takes
  the new value, a new key goes to the end.
\<close>

fun dict_set :: "params \<Rightarrow> string \<Rightarrow> sqlval \<Rightarrow> params" where
  "dict_set [] k v = [(k, v)]"
| "dict_set ((k', v') # ps) k v =
     (if k' = k then (k, v) # ps else (k', v') # dict_set ps k v)"

text \<open>The apostrophe that delimits SQL text literals.\<close>

definition apostrophe :: string where
  "apostrophe = [CHR 0x27]"

subsection \<open>Browse \<open>&\<close> Filter: query construction (lines 86 to 104)\<close>

definition base_q :: string where
  "base_q =
     ''\<newline>        SELECT f.food_id, f.food_name, f.food_type, f.quantity, f.expiry_date,'' @
     ''\<newline>               f.location, p.name AS provider_name, p.contact AS provider_contact'' @
     ''\<newline>        FROM food_listings f'' @
     ''\<newline>        LEFT JOIN providers p ON f.provider_id = p.provider_id'' @
     ''\<newline>        WHERE 1=1'' @
     ''\<newline>    ''"

definition order_clause :: string where
  "order_clause =
     '' ORDER BY COALESCE(f.expiry_date, '' @ apostrophe @ ''9999-12-31'' @ apostrophe @ '') ASC''"

definition browse_query :: "string \<Rightarrow> string \<Rightarrow> string \<Rightarrow> string \<times> params" where
  "browse_query loc_choice prov_choice type_choice =
     (let (q1, params1) =
            (if loc_choice \<noteq> ''All''
             then (base_q @ '' AND LOWER(TRIM(f.location)) = LOWER(TRIM(:loc))'',
                   dict_set [] ''loc'' (SText loc_choice))
             else (base_q, []));
          (q2, params2) =
            (if prov_choice \<noteq> ''All''
             then (q1 @ '' AND LOWER(TRIM(p.name)) = LOWER(TRIM(:pname))'',
                   dict_set params1 ''pname'' (SText prov_choice))
             else (q1, params1));
          (q3, params3) =
            (if type_choice \<noteq> ''All''
             then (q2 @ '' AND LOWER(TRIM(f.food_type)) = LOWER(TRIM(:ft))'',
                   dict_set params2 ''ft'' (SText type_choice))
             else (q2, params2))
      in (q3 @ order_clause, params3))"

text \<open>
  The reading of the specification, to compare with the construction above: the
  three filters in the order location, provider, food type, each with its column
  and its placeholder; the active ones are those whose selection is not the
  sentinel; each active one contributes one predicate and one binding.
\<close>

definition browse_filters :: "string \<Rightarrow> string \<Rightarrow> string \<Rightarrow> (string \<times> string \<times> string) list" where
  "browse_filters loc_choice prov_choice type_choice =
     [(''f.location'', ''loc'', loc_choice),
      (''p.name'', ''pname'', prov_choice),
      (''f.food_type'', ''ft'', type_choice)]"

definition active_filters :: "string \<Rightarrow> string \<Rightarrow> string \<Rightarrow> (string \<times> string \<times> string) list" where
  "active_filters loc_choice prov_choice type_choice =
     filter (\<lambda>(col, ph, choice). choice \<noteq> ''All'')
       (browse_filters loc_choice prov_choice type_choice)"

definition equality_predicate :: "string \<times> string \<times> string \<Rightarrow> string" where
  "equality_predicate = (\<lambda>(col, ph, choice).
     ''LOWER(TRIM('' @ col @ '')) = LOWER(TRIM(:'' @ ph @ ''))'')"

definition binding :: "string \<times> string \<times> string \<Rightarrow> string \<times> sqlval" where
  "binding = (\<lambda>(col, ph, choice). (ph, SText choice))"

subsection \<open>The other statements the program builds\<close>

text \<open>\<^verbatim>\<open>get_distinct_values\<close> (line 31): table and column go into the text.\<close>

definition distinct_query :: "string \<Rightarrow> string \<Rightarrow> string" where
  "distinct_query table column =
     ''SELECT DISTINCT '' @ column @ '' AS val FROM '' @ table @ '' WHERE '' @ column
       @ '' IS NOT NULL ORDER BY 1''"




definition preview_query :: "string \<Rightarrow> string" where
  "preview_query section = ''SELECT * FROM '' @ section @ '' LIMIT 25''"

definition insert_provider_stmt :: string where
  "insert_provider_stmt =
     ''INSERT INTO providers (name, type, address, city, contact) '' @
     ''VALUES (:name, :type, :address, :city, :contact)''"

definition insert_receiver_stmt :: string where
  "insert_receiver_stmt =
     ''INSERT INTO receivers (name, category, address, city, contact) '' @
     ''VALUES (:name, :category, :address, :city, :contact)''"

definition insert_food_stmt :: string where
  "insert_food_stmt =
     ''INSERT INTO food_listings (provider_id, food_name, food_type, quantity, expiry_date, location) '' @
     ''VALUES (:pid, :fname, :ftype, :qty, :exp, :loc)''"

definition insert_claim_stmt :: string where
  "insert_claim_stmt =
     ''INSERT INTO claims (food_id, receiver_id, status, timestamp) '' @
     ''VALUES (:fid, :rid, :status, :ts)''"



text \<open>Report Q11 (line 240).\<close>

definition Q11 :: string where
  "Q11 =
     ''SELECT status, COUNT(*) AS cnt, '' @
     ''ROUND(100.0 * COUNT(*) / (SELECT COUNT(*) FROM claims), 2) AS pct '' @
     ''FROM claims GROUP BY status;''"

section \<open>The data access layer and its caches\<close>

subsection \<open>Tables, exceptions, user interface elements\<close>

text \<open>
  A \<^verbatim>\<open>pandas.DataFrame\<close>: named columns and rows of cells.
  \<^verbatim>\<open>pd.DataFrame()\<close> has no column and no row.
\<close>

record dataframe =
  df_columns :: "string list"
  df_rows :: "sqlval list list"

definition empty_df :: dataframe where
  "empty_df = \<lparr>df_columns = [], df_rows = []\<rparr>"

text \<open>
  What a Python call can raise here. \<open>SQLError\<close> stands for every exception of
  the database driver, with its message; \<open>KeyError\<close> comes from indexing a
  DataFrame or a dict by an absent key. Both derive from \<^verbatim>\<open>Exception\<close>.
  \<open>StopException\<close> is what \<^verbatim>\<open>st.stop()\<close> raises to end the script run; it
  derives from \<^verbatim>\<open>BaseException\<close> only, so \<^verbatim>\<open>except Exception\<close> lets it pass.
\<close>

datatype exn = SQLError string | KeyError string | StopException

fun is_Exception :: "exn \<Rightarrow> bool" where
  "is_Exception (SQLError m) = True"
| "is_Exception (KeyError k) = True"
| "is_Exception StopException = False"

text \<open>\<^verbatim>\<open>str(e)\<close>, as the f-strings of lines 26 and 43 format it.\<close>

fun exn_text :: "exn \<Rightarrow> string" where
  "exn_text (SQLError m) = m"
| "exn_text (KeyError k) = apostrophe @ k @ apostrophe"
| "exn_text StopException = []"

datatype ui = Title string | ErrorBox string | SuccessBox string | WarningBox string

text \<open>
  The store behind \<^verbatim>\<open>engine\<close>, left open: a read yields a table or fails with
  a message and never changes the store; a write statement yields the store as
  the statement left it and, when it failed, the failure. What a failed
  statement left behind may be anything: the transaction decides what is kept.
\<close>

record 'db engine =
  read_sql :: "string \<Rightarrow> params option \<Rightarrow> 'db \<Rightarrow> string + dataframe"
  exec_sql :: "string \<Rightarrow> params \<Rightarrow> 'db \<Rightarrow> 'db \<times> string option"

subsection \<open>The process state\<close>

text \<open>
  An entry of \<^verbatim>\<open>st.cache_data\<close>: the value the function returned, the elements
  it drew while it ran (Streamlit records them and replays them whenever the
  entry is served), and the time it was stored.
\<close>

record 'v entry =
  e_value :: 'v
  e_msgs :: "ui list"
  e_stored :: nat

text \<open>
  The state of the process: the store, the clock, one cache per decorated
  function (keyed by the arguments), the elements on the page, and the
  statements handed to the store so far.
\<close>

record 'db app =
  store :: 'db
  now :: nat
  fetch_cache :: "string \<times> params option \<Rightarrow> dataframe entry option"
  distinct_cache :: "string \<times> string \<Rightarrow> string list entry option"
  tables_cache :: "unit \<Rightarrow> sqlval set entry option"
  shown :: "ui list"
  submitted :: "(string \<times> params option) list"



type_synonym ('db, 'a) prog = "'db app \<Rightarrow> (exn + 'a) \<times> 'db app"

text \<open>
  \<^verbatim>\<open>try: body  except Exception as e: handler(e)\<close>. The state at the raise is the
  state the handler starts from.
\<close>

definition try_except :: "('db, 'a) prog \<Rightarrow> (exn \<Rightarrow> ('db, 'a) prog) \<Rightarrow> ('db, 'a) prog" where
  "try_except body handler st =
     (case body st of
        (Inr v, st') \<Rightarrow> (Inr v, st')
      | (Inl e, st') \<Rightarrow> (if is_Exception e then handler e st' else (Inl e, st')))"

definition draw :: "ui \<Rightarrow> 'db app \<Rightarrow> 'db app" where
  "draw u st = st\<lparr>shown := shown st @ [u]\<rparr>"

subsection \<open>\<^verbatim>\<open>st.cache_data(ttl=60)\<close>\<close>

definition ttl :: nat where
  "ttl = 60"

text \<open>An entry is served while the clock is below its storing time plus the TTL.\<close>

definition cache_get :: "nat \<Rightarrow> ('k \<Rightarrow> 'v entry option) \<Rightarrow> 'k \<Rightarrow> 'v entry option" where
  "cache_get t c k =
     (case c k of
        None \<Rightarrow> None
      | Some e \<Rightarrow> if t < e_stored e + ttl then Some e else None)"

text \<open>The elements drawn between two states of one run.\<close>

definition recorded :: "'db app \<Rightarrow> 'db app \<Rightarrow> ui list" where
  "recorded st st' = drop (length (shown st)) (shown st')"

subsection \<open>\<^verbatim>\<open>fetch_df\<close> (lines 21 to 27)\<close>

definition read_sql_query :: "'db engine \<Rightarrow> string \<Rightarrow> params option \<Rightarrow> ('db, dataframe) prog" where
  "read_sql_query eng query ps st =
     (let st' = st\<lparr>submitted := submitted st @ [(query, ps)]\<rparr>
      in case read_sql eng query ps (store st) of
           Inl m \<Rightarrow> (Inl (SQLError m), st')
         | Inr df \<Rightarrow> (Inr df, st'))"

definition fetch_df_body :: "'db engine \<Rightarrow> string \<Rightarrow> params option \<Rightarrow> ('db, dataframe) prog" where
  "fetch_df_body eng query ps =
     try_except (read_sql_query eng query ps)
       (\<lambda>e st. (Inr empty_df, draw (ErrorBox (''SQL error: '' @ exn_text e)) st))"

definition fetch_df :: "'db engine \<Rightarrow> string \<Rightarrow> params option \<Rightarrow> ('db, dataframe) prog" where
  "fetch_df eng query ps st =
     (case cache_get (now st) (fetch_cache st) (query, ps) of
        Some e \<Rightarrow> (Inr (e_value e), st\<lparr>shown := shown st @ e_msgs e\<rparr>)
      | None \<Rightarrow>
          (case fetch_df_body eng query ps st of
             (Inl x, st') \<Rightarrow> (Inl x, st')
           | (Inr df, st') \<Rightarrow>
               (Inr df,
                st'\<lparr>fetch_cache := (fetch_cache st')((query, ps) \<mapsto>
                      \<lparr>e_value = df, e_msgs = recorded st st', e_stored = now st'\<rparr>)\<rparr>)))"

subsection \<open>\<^verbatim>\<open>get_distinct_values\<close> (lines 29 to 33) and \<^verbatim>\<open>tables_present\<close> (lines 46 to 49)\<close>

fun index_of :: "'a \<Rightarrow> 'a list \<Rightarrow> nat option" where
  "index_of x [] = None"
| "index_of x (y # ys) = (if x = y then Some 0 else map_option Suc (index_of x ys))"

definition cell :: "sqlval list \<Rightarrow> nat \<Rightarrow> sqlval" where
  "cell r i = (if i < length r then r ! i else SNull)"

text \<open>\<^verbatim>\<open>df[c].tolist()\<close>: \<^verbatim>\<open>KeyError\<close> when the frame has no such column.\<close>

definition df_column :: "dataframe \<Rightarrow> string \<Rightarrow> exn + sqlval list" where
  "df_column df c =
     (case index_of c (df_columns df) of
        None \<Rightarrow> Inl (KeyError c)
      | Some i \<Rightarrow> Inr (map (\<lambda>r. cell r i) (df_rows df)))"

text \<open>\<^verbatim>\<open>str\<close> of a cell: decimal digits for an integer, the text itself for a text.\<close>

definition digit_char :: "nat \<Rightarrow> char" where
  "digit_char d = char_of (48 + d)"

fun nat_digits :: "nat \<Rightarrow> string" where
  "nat_digits n =
     (if n < 10 then [digit_char n] else nat_digits (n div 10) @ [digit_char (n mod 10)])"

fun py_str :: "sqlval \<Rightarrow> string" where
  "py_str SNull = ''None''"
| "py_str (SInt i) = (if i < 0 then ''-'' @ nat_digits (nat (- i)) else nat_digits (nat i))"
| "py_str (SText t) = t"

definition get_distinct_values_body :: "'db engine \<Rightarrow> string \<Rightarrow> string \<Rightarrow> ('db, string list) prog" where
  "get_distinct_values_body eng table column st =
     (case fetch_df eng (distinct_query table column) None st of
        (Inl x, st') \<Rightarrow> (Inl x, st')
      | (Inr df, st') \<Rightarrow>
          (case df_column df ''val'' of
             Inl x \<Rightarrow> (Inl x, st')
           | Inr vals \<Rightarrow> (Inr (map py_str (filter (\<lambda>v. v \<noteq> SNull) vals)), st')))"

definition get_distinct_values :: "'db engine \<Rightarrow> string \<Rightarrow> string \<Rightarrow> ('db, string list) prog" where
  "get_distinct_values eng table column st =
     (case cache_get (now st) (distinct_cache st) (table, column) of
        Some e \<Rightarrow> (Inr (e_value e), st\<lparr>shown := shown st @ e_msgs e\<rparr>)
      | None \<Rightarrow>
          (case get_distinct_values_body eng table column st of
             (Inl x, st') \<Rightarrow> (Inl x, st')
           | (Inr vs, st') \<Rightarrow>
               (Inr vs,
                st'\<lparr>distinct_cache := (distinct_cache st')((table, column) \<mapsto>
                      \<lparr>e_value = vs, e_msgs = recorded st st', e_stored = now st'\<rparr>)\<rparr>)))"



subsection \<open>\<^verbatim>\<open>run_write\<close> (lines 35 to 43)\<close>

text \<open>
  \<^verbatim>\<open>with engine.begin() as conn: conn.execute(...)\<close>: the block runs inside one
  transaction, which is committed when the block ends normally and rolled back,
  the exception raised again, when it does not. The store after a rollback is
  the store at \<^verbatim>\<open>begin\<close>.
\<close>

definition engine_begin :: "('db \<Rightarrow> 'db \<times> string option) \<Rightarrow> 'db \<Rightarrow> (exn + unit) \<times> 'db" where
  "engine_begin block db =
     (case block db of
        (db', None) \<Rightarrow> (Inr (), db')
      | (db', Some m) \<Rightarrow> (Inl (SQLError m), db))"

text \<open>\<^verbatim>\<open>params or {}\<close>\<close>

definition params_or_empty :: "params option \<Rightarrow> params" where
  "params_or_empty ps = (case ps of None \<Rightarrow> [] | Some d \<Rightarrow> d)"

definition run_write_try :: "'db engine \<Rightarrow> string \<Rightarrow> params option \<Rightarrow> ('db, unit) prog" where
  "run_write_try eng query ps st =
     (let st0 = st\<lparr>submitted := submitted st @ [(query, Some (params_or_empty ps))]\<rparr>
      in case engine_begin (exec_sql eng query (params_or_empty ps)) (store st0) of
           (Inl e, db) \<Rightarrow> (Inl e, st0\<lparr>store := db\<rparr>)
         | (Inr u, db) \<Rightarrow>
             (let st1 = st0\<lparr>store := db\<rparr>;
                  st2 = draw (SuccessBox ''Operation successful.'') st1;
                  st3 = st2\<lparr>fetch_cache := Map.empty\<rparr>;
                  st4 = st3\<lparr>distinct_cache := Map.empty\<rparr>
              in (Inr (), st4)))"

definition run_write :: "'db engine \<Rightarrow> string \<Rightarrow> params option \<Rightarrow> ('db, unit) prog" where
  "run_write eng query ps =
     try_except (run_write_try eng query ps)
       (\<lambda>e st. (Inr (), draw (ErrorBox (''Write error: '' @ exn_text e)) st))"

subsection \<open>The required tables (lines 51 to 55) and the script around them\<close>







subsection \<open>The Update and Delete buttons (lines 203 to 221)\<close>



section \<open>What the store computes for the browse query, the deletion and report Q11\<close>

text \<open>
  The statements are SQL text in the source; SQLite gives them their meaning.
  This section writes that meaning out for the statements the properties below
  are about. A column holds \<open>NULL\<close> (\<open>None\<close>) or a value of the type the
  program's own INSERT statements bind to it: integers for ids and quantity,
  text for everything else, the expiry date included (line 193 binds an ISO
  text). Text is compared byte by byte, a proper prefix before its extensions,
  which is the order of \<open>string\<close> here.
\<close>

record provider_row =
  p_provider_id :: "int option"
  p_name :: "string option"
  p_type :: "string option"
  p_address :: "string option"
  p_city :: "string option"
  p_contact :: "string option"

record food_row =
  f_food_id :: "int option"
  f_provider_id :: "int option"
  f_food_name :: "string option"
  f_food_type :: "string option"
  f_meal_type :: "string option"
  f_quantity :: "int option"
  f_expiry_date :: "string option"
  f_location :: "string option"

record claim_row =
  c_claim_id :: "int option"
  c_food_id :: "int option"
  c_receiver_id :: "int option"
  c_status :: "string option"
  c_timestamp :: "string option"

record database =
  catalog :: "string list"
  providers :: "provider_row list"
  food_listings :: "food_row list"
  claims :: "claim_row list"

subsection \<open>Scalar functions and three-valued logic\<close>

definition lower_char :: "char \<Rightarrow> char" where
  "lower_char c =
     (if CHR ''A'' \<le> c \<and> c \<le> CHR ''Z'' then char_of (of_char c + (32::nat)) else c)"

definition LOWER :: "string option \<Rightarrow> string option" where
  "LOWER x = map_option (map lower_char) x"

definition strip_spaces :: "string \<Rightarrow> string" where
  "strip_spaces t =
     rev (dropWhile (\<lambda>c. c = CHR '' '') (rev (dropWhile (\<lambda>c. c = CHR '' '') t)))"

definition TRIM :: "string option \<Rightarrow> string option" where
  "TRIM x = map_option strip_spaces x"

definition COALESCE :: "'a option \<Rightarrow> 'a \<Rightarrow> 'a" where
  "COALESCE x d = (case x of None \<Rightarrow> d | Some v \<Rightarrow> v)"

text \<open>\<open>a = b\<close> is \<open>NULL\<close> when either side is.\<close>

definition sql_eq :: "'a option \<Rightarrow> 'a option \<Rightarrow> bool option" where
  "sql_eq a b =
     (case a of None \<Rightarrow> None | Some x \<Rightarrow> (case b of None \<Rightarrow> None | Some y \<Rightarrow> Some (x = y)))"

text \<open>\<open>a AND b\<close>: false when either side is false, else \<open>NULL\<close> when either is.\<close>

definition sql_and :: "bool option \<Rightarrow> bool option \<Rightarrow> bool option" where
  "sql_and a b =
     (if a = Some False \<or> b = Some False then Some False
      else if a = None \<or> b = None then None
      else Some True)"

text \<open>A \<open>WHERE\<close> clause keeps a row when its condition is true, not when it is \<open>NULL\<close>.\<close>

definition holds :: "bool option \<Rightarrow> bool" where
  "holds c = (c = Some True)"

subsection \<open>The browse query\<close>

text \<open>
  \<^verbatim>\<open>food_listings f LEFT JOIN providers p ON f.provider_id = p.provider_id\<close>: each
  listing with each provider it matches, and once with no provider at all when
  it matches none.
\<close>

definition left_join :: "food_row list \<Rightarrow> provider_row list \<Rightarrow> (food_row \<times> provider_row option) list" where
  "left_join fs ps =
     concat (map (\<lambda>f.
       (let ms = filter (\<lambda>p. holds (sql_eq (f_provider_id f) (p_provider_id p))) ps
        in if ms = [] then [(f, None)] else map (\<lambda>p. (f, Some p)) ms)) fs)"

text \<open>A column of the outer side is \<open>NULL\<close> where no provider matched.\<close>

definition outer :: "(provider_row \<Rightarrow> 'a option) \<Rightarrow> provider_row option \<Rightarrow> 'a option" where
  "outer col po = (case po of None \<Rightarrow> None | Some p \<Rightarrow> col p)"

text \<open>
  The \<open>WHERE\<close> clause of the text that \<open>browse_query\<close> builds, with its bound
  parameters: \<open>1=1\<close>, then one conjunct for each selection that is not
  \<^verbatim>\<open>"All"\<close>.
\<close>

definition browse_where :: "string \<Rightarrow> string \<Rightarrow> string \<Rightarrow> food_row \<times> provider_row option \<Rightarrow> bool option" where
  "browse_where loc_choice prov_choice type_choice = (\<lambda>(f, po).
     (let w0 = Some True;
          w1 = (if loc_choice \<noteq> ''All''
                then sql_and w0 (sql_eq (LOWER (TRIM (f_location f)))
                                        (LOWER (TRIM (Some loc_choice))))
                else w0);
          w2 = (if prov_choice \<noteq> ''All''
                then sql_and w1 (sql_eq (LOWER (TRIM (outer p_name po)))
                                        (LOWER (TRIM (Some prov_choice))))
                else w1);
          w3 = (if type_choice \<noteq> ''All''
                then sql_and w2 (sql_eq (LOWER (TRIM (f_food_type f)))
                                        (LOWER (TRIM (Some type_choice))))
                else w2)
      in w3))"

text \<open>\<^verbatim>\<open>COALESCE(f.expiry_date, '9999-12-31')\<close>\<close>

definition order_key :: "food_row \<times> provider_row option \<Rightarrow> string" where
  "order_key = (\<lambda>(f, po). COALESCE (f_expiry_date f) ''9999-12-31'')"

record browse_row =
  food_id :: "int option"
  food_name :: "string option"
  food_type :: "string option"
  quantity :: "int option"
  expiry_date :: "string option"
  location :: "string option"
  provider_name :: "string option"
  provider_contact :: "string option"

definition select_browse :: "food_row \<times> provider_row option \<Rightarrow> browse_row" where
  "select_browse = (\<lambda>(f, po).
     \<lparr>food_id = f_food_id f, food_name = f_food_name f, food_type = f_food_type f,
      quantity = f_quantity f, expiry_date = f_expiry_date f, location = f_location f,
      provider_name = outer p_name po, provider_contact = outer p_contact po\<rparr>)"

text \<open>
  The rows in the order of the \<open>ORDER BY\<close> clause. SQL leaves the order of rows with
  equal keys open; \<open>sort_key\<close> keeps them in the order of the join, which is one
  of the orders allowed.
\<close>

definition browse_sorted :: "database \<Rightarrow> string \<Rightarrow> string \<Rightarrow> string \<Rightarrow> (food_row \<times> provider_row option) list" where
  "browse_sorted db loc_choice prov_choice type_choice =
     sort_key order_key
       (filter (\<lambda>r. holds (browse_where loc_choice prov_choice type_choice r))
          (left_join (food_listings db) (providers db)))"

definition browse_result :: "database \<Rightarrow> string \<Rightarrow> string \<Rightarrow> string \<Rightarrow> browse_row list" where
  "browse_result db loc_choice prov_choice type_choice =
     map select_browse (browse_sorted db loc_choice prov_choice type_choice)"

subsection \<open>Deleting a provider, inserting a claim\<close>

text \<open>
  \<^verbatim>\<open>DELETE FROM providers WHERE provider_id = :id\<close>: the rows for which the
  condition is true go, nothing else changes (no other table is touched).
\<close>

definition delete_provider :: "int \<Rightarrow> database \<Rightarrow> database" where
  "delete_provider i db =
     db\<lparr>providers := filter (\<lambda>p. \<not> holds (sql_eq (p_provider_id p) (Some i))) (providers db)\<rparr>"

text \<open>
  The INSERT of the claims form (line 201). The statement names four columns;
  the id is what the store gives the new row, which depends on a schema that is
  not part of the program: a parameter here.
\<close>

definition insert_claim :: "int option \<Rightarrow> int \<Rightarrow> int \<Rightarrow> string \<Rightarrow> string \<Rightarrow> database \<Rightarrow> database" where
  "insert_claim new_id fid rid status ts db =
     db\<lparr>claims := claims db @
        [\<lparr>c_claim_id = new_id, c_food_id = Some fid, c_receiver_id = Some rid,
          c_status = Some status, c_timestamp = Some ts\<rparr>]\<rparr>"

subsection \<open>Report Q11\<close>

text \<open>
  \<^verbatim>\<open>ROUND(x, 2)\<close>: to the nearest hundredth, halves away from zero. SQLite
  computes on binary floating point numbers; the model computes on exact
  fractions.
\<close>

definition ROUND2 :: "rat \<Rightarrow> rat" where
  "ROUND2 x =
     (if 0 \<le> x then of_int \<lfloor>x * 100 + 1 / 2\<rfloor> / 100
      else - (of_int \<lfloor>- x * 100 + 1 / 2\<rfloor> / 100))"

text \<open>
  One row for each distinct status (\<open>NULL\<close> forms a group of its own): the
  status, the number of claims that have it, and that number as a percentage of
  all claims. The groups come in ascending order of the status, as SQLite's
  grouping by sorting yields them; SQL itself promises no order.
\<close>

definition q11 :: "database \<Rightarrow> (string option \<times> nat \<times> rat) list" where
  "q11 db =
     map (\<lambda>s.
       (let cnt = length (filter (\<lambda>c. c_status c = s) (claims db))
        in (s, cnt, ROUND2 (100 * of_nat cnt / of_nat (length (claims db))))))
       (sort (remdups (map c_status (claims db))))"

section \<open>Two small stores for concrete runs\<close>






definition acme :: provider_row where
  "acme = \<lparr>p_provider_id = Some 1, p_name = Some ''Acme'', p_type = Some ''Restaurant'',
           p_address = None, p_city = Some ''Springfield'', p_contact = Some ''555-0100''\<rparr>"

definition acme2 :: provider_row where
  "acme2 = \<lparr>p_provider_id = Some 2, p_name = Some ''Acme'', p_type = Some ''Grocery'',
            p_address = None, p_city = Some ''Shelbyville'', p_contact = Some ''555-0200''\<rparr>"

definition bread :: food_row where
  "bread = \<lparr>f_food_id = Some 10, f_provider_id = Some 1, f_food_name = Some ''Bread'',
            f_food_type = Some ''Bakery'', f_meal_type = None, f_quantity = Some 10,
            f_expiry_date = Some ''2099-01-01T00:00:00'', f_location = Some ''Springfield''\<rparr>"

definition example_db :: database where
  "example_db =
     \<lparr>catalog = [''providers'', ''food_listings''],
      providers = [acme, acme2], food_listings = [bread], claims = []\<rparr>"





text \<open>
  The columns of a browse row that come from the listing, and the same columns
  of a row of \<open>food_listings\<close>.
\<close>

definition listing_columns ::
  "browse_row \<Rightarrow> int option \<times> string option \<times> string option \<times> int option \<times> string option \<times> string option" where
  "listing_columns r =
     (food_id r, food_name r, food_type r, quantity r, expiry_date r, location r)"

definition listing_of ::
  "food_row \<Rightarrow> int option \<times> string option \<times> string option \<times> int option \<times> string option \<times> string option" where
  "listing_of f =
     (f_food_id f, f_food_name f, f_food_type f, f_quantity f, f_expiry_date f, f_location f)"

text \<open>A listing whose provider reference matches no row of \<open>providers\<close>.\<close>

definition orphan :: "database \<Rightarrow> food_row \<Rightarrow> bool" where
  "orphan db f =
     (filter (\<lambda>p. holds (sql_eq (f_provider_id f) (p_provider_id p))) (providers db) = [])"







section \<open>The browse query: predicates and bindings\<close>

lemma holds_sql_and: "holds (sql_and a b) \<longleftrightarrow> holds a \<and> holds b"
  by (cases a; cases b) (auto simp: holds_def sql_and_def)

lemma holds_browse_where:
  "holds (browse_where l p t (f, po)) \<longleftrightarrow>
     (l \<noteq> ''All'' \<longrightarrow> holds (sql_eq (LOWER (TRIM (f_location f))) (LOWER (TRIM (Some l))))) \<and>
     (p \<noteq> ''All'' \<longrightarrow> holds (sql_eq (LOWER (TRIM (outer p_name po))) (LOWER (TRIM (Some p))))) \<and>
     (t \<noteq> ''All'' \<longrightarrow> holds (sql_eq (LOWER (TRIM (f_food_type f))) (LOWER (TRIM (Some t)))))"
  by (simp add: browse_where_def Let_def holds_sql_and) (simp add: holds_def)

lemma set_browse_sorted:
  "set (browse_sorted db l p t) =
     {r \<in> set (left_join (food_listings db) (providers db)). holds (browse_where l p t r)}"
  by (simp add: browse_sorted_def)

lemma set_browse_result:
  "set (browse_result db l p t) =
     select_browse ` {r \<in> set (left_join (food_listings db) (providers db)).
                        holds (browse_where l p t r)}"
  by (simp add: browse_result_def set_browse_sorted)

lemma browse_query_text:
  "fst (browse_query l p t) =
     base_q @ concat (map (\<lambda>f. '' AND '' @ equality_predicate f) (active_filters l p t))
       @ order_clause"
  by (simp add: browse_query_def active_filters_def browse_filters_def
      equality_predicate_def Let_def)

lemma browse_query_params:
  "snd (browse_query l p t) = map binding (active_filters l p t)"
  by (simp add: browse_query_def active_filters_def browse_filters_def
      binding_def Let_def)

text \<open>
  C4. Whatever the three selections are, the text of the browse query is the
  base query, then \<open>AND LOWER(TRIM(column)) = LOWER(TRIM(:param))\<close> once for each
  selection that is not \<^verbatim>\<open>"All"\<close> (in the order location, provider, food type),
  then the ordering clause; the parameters bind exactly the placeholders of
  those predicates to the selections. Replacing any one selection by
  \<^verbatim>\<open>"All"\<close> loses no row of the result.
\<close>

theorem browse_query_one_predicate_per_active_filter:
  "browse_query l p t =
     (base_q
        @ concat (map (\<lambda>f. '' AND '' @ equality_predicate f) (active_filters l p t))
        @ order_clause,
      map binding (active_filters l p t))
   \<and> set (browse_result db l p t) \<subseteq> set (browse_result db ''All'' p t)
   \<and> set (browse_result db l p t) \<subseteq> set (browse_result db l ''All'' t)
   \<and> set (browse_result db l p t) \<subseteq> set (browse_result db l p ''All'')"
proof -
  have q: "browse_query l p t = (fst (browse_query l p t), snd (browse_query l p t))"
    by simp
  have w: "holds (browse_where l p t r) \<Longrightarrow>
      holds (browse_where ''All'' p t r) \<and> holds (browse_where l ''All'' t r)
      \<and> holds (browse_where l p ''All'' r)" for r
    by (cases r) (simp add: holds_browse_where)
  show ?thesis
    using w by (subst q) (auto simp: browse_query_text browse_query_params set_browse_result)
qed

theorem browse_query_one_predicate_per_active_filter_witness:
  "browse_query ''Springfield'' ''All'' ''Bakery'' =
     (base_q @ '' AND LOWER(TRIM(f.location)) = LOWER(TRIM(:loc))''
        @ '' AND LOWER(TRIM(f.food_type)) = LOWER(TRIM(:ft))'' @ order_clause,
      [(''loc'', SText ''Springfield''), (''ft'', SText ''Bakery'')])
   \<and> set (browse_result example_db ''Springfield'' ''All'' ''Bakery'')
       \<subseteq> set (browse_result example_db ''All'' ''All'' ''Bakery'')"
  using browse_query_one_predicate_per_active_filter
    [of "''Springfield''" "''All''" "''Bakery''" example_db]
  by (simp add: active_filters_def browse_filters_def equality_predicate_def binding_def)

section \<open>Reads: failures, the cache and its time to live\<close>

lemma fetch_df_body_cases:
  "fetch_df_body eng q ps st =
     (case read_sql eng q ps (store st) of
        Inr df \<Rightarrow> (Inr df, st\<lparr>submitted := submitted st @ [(q, ps)]\<rparr>)
      | Inl m \<Rightarrow> (Inr empty_df,
                  st\<lparr>submitted := submitted st @ [(q, ps)],
                     shown := shown st @ [ErrorBox (''SQL error: '' @ m)]\<rparr>))"
  by (simp add: fetch_df_body_def try_except_def read_sql_query_def draw_def Let_def
      split: sum.split)


lemma fetch_df_miss:
  assumes "cache_get (now st) (fetch_cache st) (q, ps) = None"
  shows "fetch_df eng q ps st =
     (case read_sql eng q ps (store st) of
        Inr df \<Rightarrow>
          (Inr df,
           st\<lparr>submitted := submitted st @ [(q, ps)],
              fetch_cache := (fetch_cache st)((q, ps) \<mapsto>
                 \<lparr>e_value = df, e_msgs = [], e_stored = now st\<rparr>)\<rparr>)
      | Inl m \<Rightarrow>
          (Inr empty_df,
           st\<lparr>submitted := submitted st @ [(q, ps)],
              shown := shown st @ [ErrorBox (''SQL error: '' @ m)],
              fetch_cache := (fetch_cache st)((q, ps) \<mapsto>
                 \<lparr>e_value = empty_df, e_msgs = [ErrorBox (''SQL error: '' @ m)],
                  e_stored = now st\<rparr>)\<rparr>))"
  using assms
  by (simp add: fetch_df_def fetch_df_body_cases recorded_def split: sum.split)

lemma cache_get_expired:
  assumes "c k = Some e" and "e_stored e + ttl \<le> t"
  shows "cache_get t c k = None"
  using assms by (simp add: cache_get_def)





section \<open>The check of the required tables\<close>








section \<open>Listings whose provider is gone\<close>

lemma holds_browse_where_All:
  "holds (browse_where l ''All'' t (f, po)) = holds (browse_where l ''All'' t (f, None))"
  by (simp add: holds_browse_where)

lemma left_join_row:
  "(f, po) \<in> set (left_join fs ps) \<Longrightarrow> f \<in> set fs"
  by (auto simp: left_join_def Let_def split: if_splits)

lemma left_join_covers:
  "f \<in> set fs \<Longrightarrow> \<exists>po. (f, po) \<in> set (left_join fs ps)"
proof -
  assume f: "f \<in> set fs"
  let ?ms = "filter (\<lambda>p. holds (sql_eq (f_provider_id f) (p_provider_id p))) ps"
  show ?thesis
  proof (cases "?ms = []")
    case True
    then have "(f, None) \<in> set (left_join fs ps)"
      using f by (auto simp: left_join_def Let_def)
    then show ?thesis by blast
  next
    case False
    then obtain p where "p \<in> set ?ms" by (cases ?ms) auto
    then have "(f, Some p) \<in> set (left_join fs ps)"
      using f False by (auto simp: left_join_def Let_def)
    then show ?thesis by blast
  qed
qed

lemma left_join_orphan:
  assumes "f \<in> set fs"
    and "filter (\<lambda>p. holds (sql_eq (f_provider_id f) (p_provider_id p))) ps = []"
  shows "(f, None) \<in> set (left_join fs ps)"
  using assms by (auto simp: left_join_def Let_def)

lemma listing_columns_select: "listing_columns (select_browse r) = listing_of (fst r)"
  by (cases r) (simp add: listing_columns_def listing_of_def select_browse_def)

lemma listings_shown:
  "listing_columns ` set (browse_result db l ''All'' t)
     = listing_of ` {f \<in> set (food_listings db). holds (browse_where l ''All'' t (f, None))}"
  (is "?L = ?R")
proof (rule set_eqI)
  fix x
  let ?J = "set (left_join (food_listings db) (providers db))"
  show "x \<in> ?L \<longleftrightarrow> x \<in> ?R"
  proof
    assume "x \<in> ?L"
    then obtain r where r: "r \<in> ?J" "holds (browse_where l ''All'' t r)"
      and x: "x = listing_columns (select_browse r)"
      unfolding set_browse_result by blast
    obtain f po where fp: "r = (f, po)" by (cases r)
    have "f \<in> set (food_listings db)" using r(1) fp left_join_row by blast
    moreover have "holds (browse_where l ''All'' t (f, None))"
      using r(2) fp holds_browse_where_All by blast
    moreover have "x = listing_of f" using x fp by (simp add: listing_columns_select)
    ultimately show "x \<in> ?R" by blast
  next
    assume "x \<in> ?R"
    then obtain f where f: "f \<in> set (food_listings db)"
      "holds (browse_where l ''All'' t (f, None))" and x: "x = listing_of f"
      by blast
    from left_join_covers [OF f(1)] obtain po where po: "(f, po) \<in> ?J" by blast
    have "holds (browse_where l ''All'' t (f, po))"
      using f(2) holds_browse_where_All by blast
    then have "select_browse (f, po) \<in> set (browse_result db l ''All'' t)"
      unfolding set_browse_result using po by blast
    moreover have "x = listing_columns (select_browse (f, po))"
      using x by (simp add: listing_columns_select)
    ultimately show "x \<in> ?L" by blast
  qed
qed

lemma bread_orphaned: "orphan (delete_provider 1 example_db) bread"
  by (simp add: orphan_def delete_provider_def example_db_def bread_def acme_def acme2_def
      holds_def sql_eq_def)

text \<open>
  C10, as the code has it. The browse query joins with a LEFT JOIN, so while the
  provider selection is \<^verbatim>\<open>"All"\<close>: a listing whose provider reference matches
  no provider, and which passes the location and food type selections, is a row
  of the result, with \<open>NULL\<close> for the provider's name and contact; and deleting
  a provider by id leaves the set of listings in the result as it was.
\<close>

theorem orphan_listing_shown_without_provider_filter:
  "(f \<in> set (food_listings db) \<and> orphan db f \<and> holds (browse_where l ''All'' t (f, None))
      \<longrightarrow> select_browse (f, None) \<in> set (browse_result db l ''All'' t)
        \<and> provider_name (select_browse (f, None)) = None
        \<and> provider_contact (select_browse (f, None)) = None
        \<and> listing_columns (select_browse (f, None)) = listing_of f)
   \<and> listing_columns ` set (browse_result (delete_provider i db) l ''All'' t)
       = listing_columns ` set (browse_result db l ''All'' t)"
proof -
  have a: "select_browse (f, None) \<in> set (browse_result db l ''All'' t)"
    if "f \<in> set (food_listings db)" "orphan db f" "holds (browse_where l ''All'' t (f, None))"
  proof -
    have "(f, None) \<in> set (left_join (food_listings db) (providers db))"
      using that(1,2) left_join_orphan unfolding orphan_def by blast
    then show ?thesis
      unfolding set_browse_result using that(3) by blast
  qed
  have b: "food_listings (delete_provider i db) = food_listings db"
    by (simp add: delete_provider_def)
  have c: "listing_columns ` set (browse_result (delete_provider i db) l ''All'' t)
       = listing_columns ` set (browse_result db l ''All'' t)"
    by (simp add: listings_shown b)
  have d: "provider_name (select_browse (f, None)) = None
        \<and> provider_contact (select_browse (f, None)) = None
        \<and> listing_columns (select_browse (f, None)) = listing_of f"
    by (simp add: select_browse_def outer_def listing_columns_def listing_of_def)
  show ?thesis
    using a c d by blast
qed

theorem orphan_listing_shown_without_provider_filter_witness:
  "bread \<in> set (food_listings (delete_provider 1 example_db))
   \<and> orphan (delete_provider 1 example_db) bread
   \<and> holds (browse_where ''All'' ''All'' ''All'' (bread, None))
   \<and> select_browse (bread, None)
       \<in> set (browse_result (delete_provider 1 example_db) ''All'' ''All'' ''All'')
   \<and> provider_name (select_browse (bread, None)) = None"
proof -
  have m: "bread \<in> set (food_listings (delete_provider 1 example_db))"
    by (simp add: delete_provider_def example_db_def)
  have w: "holds (browse_where ''All'' ''All'' ''All'' (bread, None))"
    by (simp add: holds_browse_where)
  show ?thesis
    using orphan_listing_shown_without_provider_filter
      [of bread "delete_provider 1 example_db" "''All''" "''All''" 1] m w bread_orphaned
    by blast
qed

text \<open>
  The claim as stated fails once a provider is selected: with two providers
  named Acme and the listing of the first, the selection \<open>Acme\<close> shows the listing;
  after the first provider is deleted, \<open>Acme\<close> is still a provider's name, and the
  same selection shows nothing.
\<close>

theorem provider_filter_drops_orphan:
  "browse_result example_db ''All'' ''Acme'' ''All'' = [select_browse (bread, Some acme)]
   \<and> map p_name (providers (delete_provider 1 example_db)) = [Some ''Acme'']
   \<and> browse_result (delete_provider 1 example_db) ''All'' ''Acme'' ''All'' = []"
  by (simp add: browse_result_def browse_sorted_def example_db_def left_join_def
      delete_provider_def holds_def sql_eq_def sql_and_def browse_where_def LOWER_def TRIM_def
      strip_spaces_def lower_char_def outer_def bread_def acme_def acme2_def)

section \<open>The order of the browse result\<close>








section \<open>Report Q11 on three claims\<close>

lemma round_two_thirds: "ROUND2 (100 * of_nat 2 / of_nat 3) = 6667 / 100"
  by code_simp

lemma round_one_third: "ROUND2 (100 * of_nat 1 / of_nat 3) = 3333 / 100"
  by code_simp

lemma sort_statuses:
  "sort [Some ''Pending'', Some ''Completed''] = [Some ''Completed'', Some ''Pending'']"
  by code_simp

lemma q11_three_rows:
  assumes "claims db = []"
  shows "q11 (insert_claim n3 f3 r3 ''Completed'' t3
           (insert_claim n2 f2 r2 ''Pending'' t2
             (insert_claim n1 f1 r1 ''Completed'' t1 db)))
         = [(Some ''Completed'', 2, 6667 / 100), (Some ''Pending'', 1, 3333 / 100)]"
proof -
  let ?db = "insert_claim n3 f3 r3 ''Completed'' t3
           (insert_claim n2 f2 r2 ''Pending'' t2
             (insert_claim n1 f1 r1 ''Completed'' t1 db))"
  have st: "map c_status (claims ?db) = [Some ''Completed'', Some ''Pending'', Some ''Completed'']"
    using assms by (simp add: insert_claim_def)
  have len: "length (claims ?db) = 3"
    using assms by (simp add: insert_claim_def)
  have cnt: "length (filter (\<lambda>c. c_status c = s) (claims ?db))
             = length (filter (\<lambda>x. x = s) (map c_status (claims ?db)))" for s
    by (simp add: filter_map comp_def)
  have groups: "sort (remdups (map c_status (claims ?db))) = [Some ''Completed'', Some ''Pending'']"
    by (simp add: st sort_statuses)
  have c2: "length (filter (\<lambda>c. c_status c = Some ''Completed'') (claims ?db)) = 2"
    by (simp add: cnt st)
  have c1: "length (filter (\<lambda>c. c_status c = Some ''Pending'') (claims ?db)) = 1"
    by (simp add: cnt st)
  show ?thesis
    unfolding q11_def groups
    using round_two_thirds round_one_third
    by (simp add: c1 c2 len Let_def)
qed

text \<open>
  C8. From a store whose claims table is empty, after the three inserts of the
  claims form with the statuses Completed, Pending, Completed (whatever the
  ids and timestamps), report Q11 has exactly two rows: Completed with count 2
  and 66.67 per cent, Pending with count 1 and 33.33 per cent.
\<close>

theorem q11_three_claims:
  assumes "claims db = []"
  shows "set (q11 (insert_claim n3 f3 r3 ''Completed'' t3
                (insert_claim n2 f2 r2 ''Pending'' t2
                  (insert_claim n1 f1 r1 ''Completed'' t1 db))))
           = {(Some ''Completed'', 2, 6667 / 100), (Some ''Pending'', 1, 3333 / 100)}
         \<and> length (q11 (insert_claim n3 f3 r3 ''Completed'' t3
                (insert_claim n2 f2 r2 ''Pending'' t2
                  (insert_claim n1 f1 r1 ''Completed'' t1 db)))) = 2"
  by (simp add: q11_three_rows [OF assms])

theorem q11_three_claims_witness:
  "claims example_db = []
   \<and> set (q11 (insert_claim (Some 3) 10 7 ''Completed'' ''2025-01-03T09:00:00''
                (insert_claim (Some 2) 10 8 ''Pending'' ''2025-01-02T09:00:00''
                  (insert_claim (Some 1) 10 7 ''Completed'' ''2025-01-01T09:00:00'' example_db))))
           = {(Some ''Completed'', 2, 6667 / 100), (Some ''Pending'', 1, 3333 / 100)}"
proof -
  have e: "claims example_db = []" by (simp add: example_db_def)
  show ?thesis
    using q11_three_claims [OF e, of "Some 3" 10 7 "''2025-01-03T09:00:00''"
        "Some 2" 10 8 "''2025-01-02T09:00:00''" "Some 1" 10 7 "''2025-01-01T09:00:00''"] e
    by blast
qed

section \<open>Repeated reads\<close>



lemma other_read_keeps:
  assumes "(q', ps') \<noteq> (q, ps)"
  shows "fetch_cache (snd (fetch_df eng q' ps' st)) (q, ps) = fetch_cache st (q, ps)"
proof (cases "cache_get (now st) (fetch_cache st) (q', ps')")
  case None
  then show ?thesis
    using assms by (auto simp: fetch_df_miss split: sum.split)
next
  case (Some e)
  then show ?thesis by (simp add: fetch_df_def)
qed





section \<open>A failed read in the cache\<close>






section \<open>Writes: the transaction and the caches\<close>

lemma run_write_cases:
  "run_write eng q ps st =
     (case exec_sql eng q (params_or_empty ps) (store st) of
        (db', None) \<Rightarrow>
          (Inr (),
           st\<lparr>submitted := submitted st @ [(q, Some (params_or_empty ps))],
              store := db',
              shown := shown st @ [SuccessBox ''Operation successful.''],
              fetch_cache := Map.empty,
              distinct_cache := Map.empty\<rparr>)
      | (db', Some m) \<Rightarrow>
          (Inr (),
           st\<lparr>submitted := submitted st @ [(q, Some (params_or_empty ps))],
              store := store st,
              shown := shown st @ [ErrorBox (''Write error: '' @ m)]\<rparr>))"
  by (simp add: run_write_def run_write_try_def try_except_def engine_begin_def draw_def
      Let_def split: prod.split option.split)

lemma failed_write_keeps:
  assumes "exec_sql eng q (params_or_empty ps) (store st) = (db', Some m)"
  shows "fetch_cache (snd (run_write eng q ps st)) = fetch_cache st"
  using assms by (simp add: run_write_cases)







section \<open>Statement text and bound values\<close>







end
